theory Spec2Isabelle
  imports Complex_Main
begin

section \<open>Data model of the motion controller\<close>

text \<open>
  The theory embeds \<^verbatim>\<open>src/controller/motion/motion.controller.js\<close>: the class
  \<^verbatim>\<open>MotionController\<close> with its private method \<^verbatim>\<open>#handleMotion\<close>, the HTTP
  request handler and the MQTT message handler. The mutable parts of the object and
  the calls it makes on its collaborators are fields of one state record, passed in
  and returned.
\<close>

text \<open>
  A value that JavaScript may leave \<^verbatim>\<open>undefined\<close>: the trigger type read from a
  path by \<^verbatim>\<open>split('/')[1]\<close> is one.
\<close>

datatype jsval = Undefined | Str string

text \<open>
  Modelled from the spec: the configuration service that declares the entries of
  \<^verbatim>\<open>ConfigService.ui.cameras\<close> is not part of the source file. The fields are the
  ones the controller reads, with the types of the spec's \<^verbatim>\<open>CameraConfig\<close>;
  \<^verbatim>\<open>motionTimeout\<close> is a number of seconds, which may be zero or negative.
\<close>

record camera =
  name :: string
  recordOnMovement :: bool
  motionTimeout :: real

text \<open>
  Modelled from the spec: the database that holds the \<^verbatim>\<open>general\<close> settings is not
  part of the source file. The settings are read at every trigger and hold the spec's
  \<^verbatim>\<open>PresenceState\<close>. Both fields may be missing
  (\<^verbatim>\<open>generalSettings?.atHome || false\<close>, \<^verbatim>\<open>generalSettings?.exclude || []\<close>), and so
  may the whole object.
\<close>

record general =
  atHome :: "bool option"
  exclude :: "string list option"

text \<open>The value \<^verbatim>\<open>{error, message}\<close> every handler reports.\<close>

record result =
  error :: bool
  message :: string

text \<open>
  The handle returned by \<^verbatim>\<open>setTimeout\<close>: the camera name its callback deletes from
  the map, and the delay in milliseconds it was started with.
\<close>

datatype timer = Timer (owner: string) (delay: real)

text \<open>
  The state: the map \<^verbatim>\<open>#motionTimers\<close> from camera names to timer handles, the
  timers passed to \<^verbatim>\<open>clearTimeout\<close>, the calls
  \<^verbatim>\<open>this.#controller.emit('motion', cameraName, triggerType, state, event)\<close> and the
  calls \<^verbatim>\<open>EventController.handle(triggerType, cameraName, state)\<close>, each in the order
  made.
\<close>

record controller =
  motionTimers :: "string \<rightharpoonup> timer"
  cleared :: "timer list"
  emitted :: "(string \<times> jsval \<times> bool \<times> string) list"
  handled :: "(jsval \<times> string \<times> bool) list"

section \<open>The debounce resolver\<close>

text \<open>
  \<^verbatim>\<open>#getCamera\<close>:
  \<^verbatim>\<open>this.#cameras.find((camera) => camera && camera.name === cameraName)\<close>. The list may
  hold empty entries, which the test \<^verbatim>\<open>camera &&\<close> skips.
\<close>

fun getCamera :: "camera option list \<Rightarrow> string \<Rightarrow> camera option" where
  "getCamera [] cameraName = None"
| "getCamera (None # cameras) cameraName = getCamera cameras cameraName"
| "getCamera (Some c # cameras) cameraName =
     (if name c = cameraName then Some c else getCamera cameras cameraName)"

text \<open>\<^verbatim>\<open>generalSettings?.atHome || false\<close>\<close>

definition isAtHome :: "general option \<Rightarrow> bool" where
  "isAtHome generalSettings =
     (case generalSettings of
        None \<Rightarrow> False
      | Some g \<Rightarrow> (case atHome g of None \<Rightarrow> False | Some b \<Rightarrow> b))"

text \<open>\<^verbatim>\<open>(generalSettings?.exclude || []).includes(cameraName)\<close>\<close>

definition isExcluded :: "general option \<Rightarrow> string \<Rightarrow> bool" where
  "isExcluded generalSettings cameraName =
     (case generalSettings of
        None \<Rightarrow> False
      | Some g \<Rightarrow> (case exclude g of None \<Rightarrow> False | Some xs \<Rightarrow> cameraName \<in> set xs))"

text \<open>
  \<^verbatim>\<open>camera.motionTimeout >= 0 ? camera.motionTimeout : 1\<close>
\<close>

definition timeoutConfigOf :: "camera \<Rightarrow> real" where
  "timeoutConfigOf c = (if motionTimeout c \<ge> 0 then motionTimeout c else 1)"

text \<open>
  \<^verbatim>\<open>#handleMotion(triggerType, cameraName, state, event, result)\<close>. The registry and
  the settings the database returns for this call are parameters. The \<^verbatim>\<open>result\<close>
  passed in is overwritten on every path, as in the source.
\<close>

definition handleMotion ::
  "camera option list \<Rightarrow> general option \<Rightarrow> jsval \<Rightarrow> string \<Rightarrow> bool \<Rightarrow> string \<Rightarrow> result
     \<Rightarrow> controller \<Rightarrow> controller \<times> result" where
  "handleMotion cameras generalSettings triggerType cameraName state event result st =
     (case getCamera cameras cameraName of
        Some c \<Rightarrow>
          if isAtHome generalSettings \<and> \<not> isExcluded generalSettings cameraName then
            (st, \<lparr>error = False,
                  message = ''Skip motion trigger. At Home is active and '' @ cameraName
                            @ '' is not excluded!''\<rparr>)
          else
            (let result1 = \<lparr>error = False, message = ''Handled through extern controller''\<rparr>;
                 st1 = st\<lparr>emitted := emitted st @ [(cameraName, triggerType, state, event)]\<rparr>
             in if recordOnMovement c then
                  (case motionTimers st1 (name c) of
                     Some timeout \<Rightarrow>
                       (let st2 = st1\<lparr>cleared := cleared st1 @ [timeout],
                                      motionTimers := (motionTimers st1)(name c := None)\<rparr>
                        in if state then
                             (st2, result1\<lparr>message := ''Skip motion event, timeout active!''\<rparr>)
                           else
                             (st2\<lparr>handled := handled st2 @ [(triggerType, cameraName, state)]\<rparr>,
                              result1))
                   | None \<Rightarrow>
                       (let st2 = (if state \<and> timeoutConfigOf c > 0 then
                                     st1\<lparr>motionTimers := (motionTimers st1)
                                            (name c \<mapsto> Timer (name c) (timeoutConfigOf c * 1000))\<rparr>
                                   else st1)
                        in (st2\<lparr>handled := handled st2 @ [(triggerType, cameraName, state)]\<rparr>,
                            result1\<lparr>message := ''Handled through intern controller''\<rparr>)))
                else (st1, result1))
      | None \<Rightarrow>
          (st, \<lparr>error = True,
                message = ''Camera '' @ [CHR 0x27] @ cameraName @ [CHR 0x27] @ '' not found''\<rparr>))"

text \<open>
  The callback given to \<^verbatim>\<open>setTimeout\<close>, run when a timer expires:
  \<^verbatim>\<open>this.#motionTimers.delete(camera.name)\<close>.
\<close>

definition timerExpired :: "timer \<Rightarrow> controller \<Rightarrow> controller" where
  "timerExpired t st = st\<lparr>motionTimers := (motionTimers st)(owner t := None)\<rparr>"

text \<open>
  One thing that happens to the controller: a call of \<^verbatim>\<open>#handleMotion\<close> with its
  arguments and the settings the database returns for it, or the expiry of a timer.
\<close>

datatype event =
  Motion "general option" jsval string bool string result
| Expired timer

fun step :: "camera option list \<Rightarrow> event \<Rightarrow> controller \<Rightarrow> controller" where
  "step cameras (Motion generalSettings triggerType cameraName state ev result) st =
     fst (handleMotion cameras generalSettings triggerType cameraName state ev result st)"
| "step cameras (Expired t) st = timerExpired t st"

fun run :: "camera option list \<Rightarrow> event list \<Rightarrow> controller \<Rightarrow> controller" where
  "run cameras [] st = st"
| "run cameras (e # es) st = run cameras es (step cameras e st)"

text \<open>A controller as constructed: no timer, nothing cleared, emitted or handled.\<close>

definition initial :: controller where
  "initial = \<lparr>motionTimers = Map.empty, cleared = [], emitted = [], handled = []\<rparr>"

section \<open>The HTTP adapter\<close>








text \<open>
  What an adapter makes of a raw message: a rejection with its result, or the
  arguments \<^verbatim>\<open>(triggerType, cameraName, state)\<close> it calls \<^verbatim>\<open>#handleMotion\<close> with.
\<close>

datatype normalized = Rejected result | Trigger jsval string bool



section \<open>The MQTT adapter\<close>

text \<open>
  Modelled from the spec: the configuration service that declares
  \<^verbatim>\<open>ConfigService.ui.topics\<close>, a map from topics to the camera and the messages
  configured for it, is not part of the source file. The fields are the ones the
  handler reads, with the types of the spec's \<^verbatim>\<open>TopicMapping\<close>.
\<close>

record topic_mapping =
  camera :: string
  motion :: bool
  reset :: bool
  motionMessage :: string
  motionResetMessage :: string

text \<open>
  The nested conditional that computes \<^verbatim>\<open>state\<close>; \<^verbatim>\<open>None\<close> is \<^verbatim>\<open>undefined\<close>.
\<close>

definition mqttState :: "topic_mapping \<Rightarrow> string \<Rightarrow> string \<Rightarrow> bool option" where
  "mqttState cameraMqttConfig triggerType msg =
     (if triggerType = ''doorbell'' then Some True
      else if reset cameraMqttConfig then
        (if msg = motionResetMessage cameraMqttConfig then Some False else None)
      else if msg = motionMessage cameraMqttConfig then Some True
      else if msg = motionResetMessage cameraMqttConfig then Some False
      else None)"

text \<open>The handler of \<^verbatim>\<open>'message'\<close> up to the call of \<^verbatim>\<open>#handleMotion\<close>.\<close>

definition mqttNormalize :: "(string \<rightharpoonup> topic_mapping) \<Rightarrow> string \<Rightarrow> string \<Rightarrow> normalized" where
  "mqttNormalize topics topic msg =
     (case topics topic of
        Some cameraMqttConfig \<Rightarrow>
          (let cameraName = camera cameraMqttConfig;
               triggerType = (if motion cameraMqttConfig then ''motion'' else ''doorbell'')
           in case mqttState cameraMqttConfig triggerType msg of
                Some state \<Rightarrow> Trigger (Str triggerType) cameraName state
              | None \<Rightarrow>
                  Rejected \<lparr>error = True,
                    message = ''The incoming MQTT message ('' @ msg @ '') for the topic (''
                              @ topic @ '') was not the same as set in config.json. Skip...''\<rparr>)
      | None \<Rightarrow>
          Rejected \<lparr>error = True,
            message = ''Can not assign the MQTT topic ('' @ topic @ '') to a camera!''\<rparr>)"

text \<open>The whole handler of \<^verbatim>\<open>'message'\<close>; its result is only logged.\<close>

definition mqttMessage ::
  "camera option list \<Rightarrow> general option \<Rightarrow> (string \<rightharpoonup> topic_mapping) \<Rightarrow> string \<Rightarrow> string
     \<Rightarrow> controller \<Rightarrow> controller \<times> result" where
  "mqttMessage cameras generalSettings topics topic msg st =
     (case mqttNormalize topics topic msg of
        Rejected r \<Rightarrow> (st, r)
      | Trigger triggerType cameraName state \<Rightarrow>
          handleMotion cameras generalSettings triggerType cameraName state ''mqtt''
            \<lparr>error = True,
             message = ''Malformed MQTT message '' @ msg @ '' ('' @ topic @ '')''\<rparr> st)"

section \<open>Example configurations\<close>

text \<open>
  The cameras, settings and states the examples below are evaluated at: a camera that
  records on movement with a timeout of ten seconds, one that does not record, the
  settings of somebody away and of somebody at home, and the controller after the
  first trigger for the recording camera.
\<close>

abbreviation garage :: camera where
  "garage \<equiv> \<lparr>name = ''Garage'', recordOnMovement = True, motionTimeout = 10\<rparr>"

abbreviation porch :: camera where
  "porch \<equiv> \<lparr>name = ''Porch'', recordOnMovement = False, motionTimeout = 10\<rparr>"

abbreviation malformed :: result where
  "malformed \<equiv> \<lparr>error = True, message = ''Malformed URL /motion?Garage''\<rparr>"

abbreviation away :: "general option" where
  "away \<equiv> Some \<lparr>atHome = Some False, exclude = Some []\<rparr>"

abbreviation home :: "general option" where
  "home \<equiv> Some \<lparr>atHome = Some True, exclude = Some [''Porch'']\<rparr>"

abbreviation armed :: controller where
  "armed \<equiv> \<lparr>motionTimers = [''Garage'' \<mapsto> Timer ''Garage'' 10000], cleared = [],
            emitted = [(''Garage'', Str ''motion'', True, ''http'')],
            handled = [(Str ''motion'', ''Garage'', True)]\<rparr>"

text \<open>
  The controller after one and after two resets from the start, after the trigger
  that follows the first one while the timer is present, and after the one after that.
\<close>

abbreviation idle_after_reset :: controller where
  "idle_after_reset \<equiv>
     \<lparr>motionTimers = Map.empty, cleared = [],
      emitted = [(''Garage'', Str ''motion'', False, ''http'')],
      handled = [(Str ''motion'', ''Garage'', False)]\<rparr>"

abbreviation idle_after_resets :: controller where
  "idle_after_resets \<equiv>
     \<lparr>motionTimers = Map.empty, cleared = [],
      emitted = [(''Garage'', Str ''motion'', False, ''http''),
                 (''Garage'', Str ''motion'', False, ''http'')],
      handled = [(Str ''motion'', ''Garage'', False), (Str ''motion'', ''Garage'', False)]\<rparr>"

abbreviation skipped :: controller where
  "skipped \<equiv>
     \<lparr>motionTimers = Map.empty, cleared = [Timer ''Garage'' 10000],
      emitted = [(''Garage'', Str ''motion'', True, ''http''),
                 (''Garage'', Str ''motion'', True, ''http'')],
      handled = [(Str ''motion'', ''Garage'', True)]\<rparr>"

abbreviation rearmed :: controller where
  "rearmed \<equiv>
     \<lparr>motionTimers = [''Garage'' \<mapsto> Timer ''Garage'' 10000], cleared = [Timer ''Garage'' 10000],
      emitted = [(''Garage'', Str ''motion'', True, ''http''),
                 (''Garage'', Str ''motion'', True, ''http''),
                 (''Garage'', Str ''motion'', True, ''http'')],
      handled = [(Str ''motion'', ''Garage'', True), (Str ''motion'', ''Garage'', True)]\<rparr>"

text \<open>
  A camera with a timeout of zero and one with a negative timeout, and the controller
  after the first trigger for each.
\<close>

abbreviation hall :: camera where
  "hall \<equiv> \<lparr>name = ''Hall'', recordOnMovement = True, motionTimeout = 0\<rparr>"

abbreviation cellar :: camera where
  "cellar \<equiv> \<lparr>name = ''Cellar'', recordOnMovement = True, motionTimeout = - 1\<rparr>"

abbreviation hall_once :: controller where
  "hall_once \<equiv>
     \<lparr>motionTimers = Map.empty, cleared = [],
      emitted = [(''Hall'', Str ''motion'', True, ''http'')],
      handled = [(Str ''motion'', ''Hall'', True)]\<rparr>"

abbreviation hall_twice :: controller where
  "hall_twice \<equiv>
     \<lparr>motionTimers = Map.empty, cleared = [],
      emitted = [(''Hall'', Str ''motion'', True, ''http''), (''Hall'', Str ''motion'', True, ''http'')],
      handled = [(Str ''motion'', ''Hall'', True), (Str ''motion'', ''Hall'', True)]\<rparr>"

abbreviation cellar_once :: controller where
  "cellar_once \<equiv>
     \<lparr>motionTimers = [''Cellar'' \<mapsto> Timer ''Cellar'' 1000], cleared = [],
      emitted = [(''Cellar'', Str ''motion'', True, ''http'')],
      handled = [(Str ''motion'', ''Cellar'', True)]\<rparr>"




abbreviation topics_example :: "string \<rightharpoonup> topic_mapping" where
  "topics_example \<equiv>
     [''cam/Garage'' \<mapsto> \<lparr>camera = ''Garage'', motion = True, reset = False,
                           motionMessage = ''ON'', motionResetMessage = ''OFF''\<rparr>,
      ''cam/Garage/reset'' \<mapsto> \<lparr>camera = ''Garage'', motion = True, reset = True,
                                 motionMessage = ''ON'', motionResetMessage = ''OFF''\<rparr>,
      ''bell/Garage'' \<mapsto> \<lparr>camera = ''Garage'', motion = False, reset = False,
                            motionMessage = ''ON'', motionResetMessage = ''OFF''\<rparr>]"

section \<open>Lookup in the registry\<close>

lemma getCamera_None_iff:
  "getCamera cameras cameraName = None \<longleftrightarrow> (\<forall>c. Some c \<in> set cameras \<longrightarrow> name c \<noteq> cameraName)"
proof (induction cameras cameraName rule: getCamera.induct)
  case (1 cameraName)
  show ?case by simp
next
  case (2 cameras cameraName)
  then show ?case by simp
next
  case (3 c cameras cameraName)
  then show ?case by auto
qed

lemma getCamera_Some_name:
  "getCamera cameras cameraName = Some c \<Longrightarrow> name c = cameraName \<and> Some c \<in> set cameras"
  by (induction cameras cameraName rule: getCamera.induct) (auto split: if_splits)

section \<open>Unknown cameras\<close>

text \<open>
  Claim C5. A trigger whose camera name no entry of the registry carries is answered
  with \<^verbatim>\<open>{error: true, message: "Camera '<name>' not found"}\<close>, and the state is the
  one before the call: the timer map, the cleared timers, the notifications emitted
  and the events handed to the event controller are all unchanged.
\<close>

theorem handleMotion_unknown_camera:
  assumes "\<forall>c. Some c \<in> set cameras \<longrightarrow> name c \<noteq> cameraName"
  shows "handleMotion cameras generalSettings triggerType cameraName state event result st =
           (st, \<lparr>error = True,
                 message = ''Camera '' @ [CHR 0x27] @ cameraName @ [CHR 0x27] @ '' not found''\<rparr>)"
proof -
  from assms have "getCamera cameras cameraName = None"
    by (simp add: getCamera_None_iff)
  then show ?thesis
    by (simp add: handleMotion_def)
qed

text \<open>The claim at a name the example registry does not hold.\<close>

theorem handleMotion_unknown_camera_witness:
  "handleMotion [None, Some garage] away (Str ''motion'') ''Unknown'' True ''http'' malformed armed =
     (armed, \<lparr>error = True, message = ''Camera 'Unknown' not found''\<rparr>)"
proof -
  have h: "\<forall>c. Some c \<in> set [None, Some garage] \<longrightarrow> name c \<noteq> ''Unknown''"
    by simp
  show ?thesis
    using handleMotion_unknown_camera [OF h, of away "Str ''motion''" True "''http''" malformed armed]
    by simp
qed

section \<open>The paths of the resolver\<close>

text \<open>
  One equation for each path through \<^verbatim>\<open>#handleMotion\<close> for a camera the registry
  knows: suppressed by the presence settings, not recording, a timer present, no timer.
\<close>

lemma handleMotion_suppressed:
  assumes "getCamera cameras cameraName = Some c"
    and "isAtHome generalSettings" and "\<not> isExcluded generalSettings cameraName"
  shows "handleMotion cameras generalSettings triggerType cameraName state ev result st =
           (st, \<lparr>error = False,
                 message = ''Skip motion trigger. At Home is active and '' @ cameraName
                           @ '' is not excluded!''\<rparr>)"
  using assms by (simp add: handleMotion_def)

lemma handleMotion_not_recording:
  assumes "getCamera cameras cameraName = Some c"
    and "\<not> (isAtHome generalSettings \<and> \<not> isExcluded generalSettings cameraName)"
    and "\<not> recordOnMovement c"
  shows "handleMotion cameras generalSettings triggerType cameraName state ev result st =
           (st\<lparr>emitted := emitted st @ [(cameraName, triggerType, state, ev)]\<rparr>,
            \<lparr>error = False, message = ''Handled through extern controller''\<rparr>)"
  using assms by (auto simp add: handleMotion_def)

lemma handleMotion_armed:
  assumes "getCamera cameras cameraName = Some c"
    and "\<not> (isAtHome generalSettings \<and> \<not> isExcluded generalSettings cameraName)"
    and "recordOnMovement c"
    and "motionTimers st cameraName = Some t"
  shows "handleMotion cameras generalSettings triggerType cameraName state ev result st =
           (if state then
              (st\<lparr>emitted := emitted st @ [(cameraName, triggerType, state, ev)],
                  cleared := cleared st @ [t],
                  motionTimers := (motionTimers st)(cameraName := None)\<rparr>,
               \<lparr>error = False, message = ''Skip motion event, timeout active!''\<rparr>)
            else
              (st\<lparr>emitted := emitted st @ [(cameraName, triggerType, state, ev)],
                  cleared := cleared st @ [t],
                  motionTimers := (motionTimers st)(cameraName := None),
                  handled := handled st @ [(triggerType, cameraName, state)]\<rparr>,
               \<lparr>error = False, message = ''Handled through extern controller''\<rparr>))"
proof -
  from assms(1) have n: "name c = cameraName"
    by (simp add: getCamera_Some_name)
  from assms n show ?thesis
    by (auto simp add: handleMotion_def)
qed

lemma handleMotion_idle:
  assumes "getCamera cameras cameraName = Some c"
    and "\<not> (isAtHome generalSettings \<and> \<not> isExcluded generalSettings cameraName)"
    and "recordOnMovement c"
    and "motionTimers st cameraName = None"
  shows "handleMotion cameras generalSettings triggerType cameraName state ev result st =
           (if state \<and> timeoutConfigOf c > 0 then
              (st\<lparr>emitted := emitted st @ [(cameraName, triggerType, state, ev)],
                  motionTimers := (motionTimers st)
                    (cameraName \<mapsto> Timer cameraName (timeoutConfigOf c * 1000)),
                  handled := handled st @ [(triggerType, cameraName, state)]\<rparr>,
               \<lparr>error = False, message = ''Handled through intern controller''\<rparr>)
            else
              (st\<lparr>emitted := emitted st @ [(cameraName, triggerType, state, ev)],
                  handled := handled st @ [(triggerType, cameraName, state)]\<rparr>,
               \<lparr>error = False, message = ''Handled through intern controller''\<rparr>))"
proof -
  from assms(1) have n: "name c = cameraName"
    by (simp add: getCamera_Some_name)
  from assms n show ?thesis
    by (auto simp add: handleMotion_def)
qed

text \<open>The first trigger for the example camera arms it; the settings of somebody away suppress nothing.\<close>

lemma garage_arms:
  "handleMotion [Some garage] away (Str ''motion'') ''Garage'' True ''http'' malformed initial =
     (armed, \<lparr>error = False, message = ''Handled through intern controller''\<rparr>)"
  by (simp add: handleMotion_def isAtHome_def isExcluded_def timeoutConfigOf_def initial_def)

lemma away_passes: "\<not> (isAtHome away \<and> \<not> isExcluded away n)"
  by (simp add: isAtHome_def)

section \<open>A positive trigger while a timer is present\<close>

text \<open>
  Claim C1 says that a trigger with \<^verbatim>\<open>state == true\<close> for an armed camera is
  suppressed and leaves the timer map as it was. The source calls \<^verbatim>\<open>clearTimeout\<close>
  and deletes the entry before it looks at \<^verbatim>\<open>state\<close>. After the first trigger for
  the example camera the second one is answered with
  \<^verbatim>\<open>Skip motion event, timeout active!\<close>, and the entry of the camera is gone: the
  map after the call is not the map before it.
\<close>

theorem armed_positive_removes_timer:
  "getCamera [Some garage] ''Garage'' = Some garage \<and> recordOnMovement garage
   \<and> armed = fst (handleMotion [Some garage] away (Str ''motion'') ''Garage'' True ''http''
                    malformed initial)
   \<and> motionTimers armed ''Garage'' = Some (Timer ''Garage'' 10000)
   \<and> \<not> (isAtHome away \<and> \<not> isExcluded away ''Garage'')
   \<and> message (snd (handleMotion [Some garage] away (Str ''motion'') ''Garage'' True ''http''
                     malformed armed)) = ''Skip motion event, timeout active!''
   \<and> motionTimers (fst (handleMotion [Some garage] away (Str ''motion'') ''Garage'' True
                          ''http'' malformed armed)) ''Garage'' = None
   \<and> motionTimers (fst (handleMotion [Some garage] away (Str ''motion'') ''Garage'' True
                          ''http'' malformed armed)) \<noteq> motionTimers armed"
proof -
  have a: "handleMotion [Some garage] away (Str ''motion'') ''Garage'' True ''http'' malformed armed =
        (\<lparr>motionTimers = Map.empty, cleared = [Timer ''Garage'' 10000],
          emitted = [(''Garage'', Str ''motion'', True, ''http''),
                     (''Garage'', Str ''motion'', True, ''http'')],
          handled = [(Str ''motion'', ''Garage'', True)]\<rparr>,
         \<lparr>error = False, message = ''Skip motion event, timeout active!''\<rparr>)"
    by (simp add: handleMotion_def isAtHome_def isExcluded_def)
  have b: "Map.empty \<noteq> [''Garage'' \<mapsto> Timer ''Garage'' 10000]"
    by (metis map_upd_nonempty)
  have c: "motionTimers armed ''Garage'' = Some (Timer ''Garage'' 10000)"
    by simp
  have d: "\<not> (isAtHome away \<and> \<not> isExcluded away ''Garage'')"
    by (simp add: isAtHome_def)
  have e: "motionTimers (fst (handleMotion [Some garage] away (Str ''motion'') ''Garage'' True
                          ''http'' malformed armed)) \<noteq> motionTimers armed"
    using b by (simp add: a del: fun_upd_apply)
  show ?thesis
    using c d e by (simp add: a garage_arms del: fun_upd_apply)
qed

text \<open>
  Claim C1 as amended. For a camera that records on movement, has a timer and is not
  suppressed by the presence settings, a trigger with \<^verbatim>\<open>state == true\<close> is answered
  with \<^verbatim>\<open>{error: false, message: 'Skip motion event, timeout active!'}\<close>; nothing is
  handed to the event controller; the notification is emitted; the timer is cleared and
  the entry of the camera is removed from the map, all other entries staying.
\<close>

theorem handleMotion_armed_positive:
  assumes "getCamera cameras cameraName = Some c"
    and "recordOnMovement c"
    and "motionTimers st cameraName = Some t"
    and "\<not> (isAtHome generalSettings \<and> \<not> isExcluded generalSettings cameraName)"
  shows "handleMotion cameras generalSettings triggerType cameraName True ev result st =
           (st\<lparr>emitted := emitted st @ [(cameraName, triggerType, True, ev)],
               cleared := cleared st @ [t],
               motionTimers := (motionTimers st)(cameraName := None)\<rparr>,
            \<lparr>error = False, message = ''Skip motion event, timeout active!''\<rparr>)"
  using handleMotion_armed [OF assms(1) assms(4) assms(2) assms(3)] by simp

text \<open>The amended claim at the example camera, after its first trigger.\<close>

theorem handleMotion_armed_positive_witness:
  "getCamera [Some garage] ''Garage'' = Some garage \<and> recordOnMovement garage
   \<and> motionTimers armed ''Garage'' = Some (Timer ''Garage'' 10000)
   \<and> \<not> (isAtHome away \<and> \<not> isExcluded away ''Garage'')
   \<and> handleMotion [Some garage] away (Str ''motion'') ''Garage'' True ''http'' malformed armed =
        (\<lparr>motionTimers = Map.empty, cleared = [Timer ''Garage'' 10000],
          emitted = [(''Garage'', Str ''motion'', True, ''http''),
                     (''Garage'', Str ''motion'', True, ''http'')],
          handled = [(Str ''motion'', ''Garage'', True)]\<rparr>,
         \<lparr>error = False, message = ''Skip motion event, timeout active!''\<rparr>)"
proof -
  have h1: "getCamera [Some garage] ''Garage'' = Some garage" by simp
  have h2: "recordOnMovement garage" by simp
  have h3: "motionTimers armed ''Garage'' = Some (Timer ''Garage'' 10000)" by simp
  have h4: "\<not> (isAtHome away \<and> \<not> isExcluded away ''Garage'')" by (simp add: isAtHome_def)
  show ?thesis
    using h1 h2 h3 h4
      handleMotion_armed_positive [OF h1 h2 h3 h4, of "Str ''motion''" "''http''" malformed]
    by simp
qed

section \<open>A reset while a timer is present\<close>

text \<open>
  Claim C3 says that a trigger with \<^verbatim>\<open>state == false\<close> for an armed camera clears
  and removes the timer, hands \<^verbatim>\<open>(triggerType, cameraName, false)\<close> to the event
  controller and reports \<^verbatim>\<open>Handled through intern controller\<close>. Evaluated at the
  example camera after its first trigger, the source does the first two and reports
  \<^verbatim>\<open>Handled through extern controller\<close>: the branch for a present timer calls
  \<^verbatim>\<open>EventController.handle\<close> and leaves the message alone, where the branch for no
  timer sets it after the same call.
\<close>

theorem armed_reset_reports_extern:
  "handleMotion [Some garage] away (Str ''motion'') ''Garage'' False ''http'' malformed armed =
     (\<lparr>motionTimers = Map.empty, cleared = [Timer ''Garage'' 10000],
       emitted = [(''Garage'', Str ''motion'', True, ''http''),
                  (''Garage'', Str ''motion'', False, ''http'')],
       handled = [(Str ''motion'', ''Garage'', True), (Str ''motion'', ''Garage'', False)]\<rparr>,
      \<lparr>error = False, message = ''Handled through extern controller''\<rparr>)"
  by (simp add: handleMotion_def isAtHome_def isExcluded_def)

section \<open>The presence settings\<close>

text \<open>
  Claim C4. For a camera the registry knows, when the settings say at home and the
  camera name is not among the excluded ones, every trigger is answered with
  \<^verbatim>\<open>{error: false, message: 'Skip motion trigger. At Home is active and <camera> is not excluded!'}\<close>
  and the state is the one before the call: nothing is emitted, nothing is handed to
  the event controller, and the timer map is unchanged.
\<close>

theorem handleMotion_at_home:
  assumes "getCamera cameras cameraName = Some c"
    and "isAtHome generalSettings"
    and "\<not> isExcluded generalSettings cameraName"
  shows "handleMotion cameras generalSettings triggerType cameraName state ev result st =
           (st, \<lparr>error = False,
                 message = ''Skip motion trigger. At Home is active and '' @ cameraName
                           @ '' is not excluded!''\<rparr>)"
  using assms by (rule handleMotion_suppressed)

text \<open>The claim at the example camera while its timer is present.\<close>

theorem handleMotion_at_home_witness:
  "getCamera [Some garage] ''Garage'' = Some garage \<and> isAtHome home
   \<and> \<not> isExcluded home ''Garage''
   \<and> handleMotion [Some garage] home (Str ''motion'') ''Garage'' False ''http'' malformed armed =
        (armed, \<lparr>error = False,
           message = ''Skip motion trigger. At Home is active and Garage is not excluded!''\<rparr>)"
proof -
  have h1: "getCamera [Some garage] ''Garage'' = Some garage" by simp
  have h2: "isAtHome home" by (simp add: isAtHome_def)
  have h3: "\<not> isExcluded home ''Garage''" by (simp add: isExcluded_def)
  show ?thesis
    using h1 h2 h3
      handleMotion_at_home [OF h1 h2 h3, of "Str ''motion''" False "''http''" malformed armed]
    by simp
qed

section \<open>A camera that does not record on movement\<close>

text \<open>
  Claim C8. For a camera the registry knows with \<^verbatim>\<open>recordOnMovement\<close> false that the
  presence settings do not suppress, a trigger only emits the notification: the timer
  map, the cleared timers and the events handed to the event controller are unchanged,
  and the result is \<^verbatim>\<open>{error: false, message: 'Handled through extern controller'}\<close>.
\<close>

theorem handleMotion_without_recording:
  assumes "getCamera cameras cameraName = Some c"
    and "\<not> recordOnMovement c"
    and "\<not> (isAtHome generalSettings \<and> \<not> isExcluded generalSettings cameraName)"
  shows "handleMotion cameras generalSettings triggerType cameraName state ev result st =
           (st\<lparr>emitted := emitted st @ [(cameraName, triggerType, state, ev)]\<rparr>,
            \<lparr>error = False, message = ''Handled through extern controller''\<rparr>)"
  using assms(1) assms(3) assms(2) by (rule handleMotion_not_recording)

text \<open>
  The claim at the second example camera, excluded from the presence settings, while
  the first one has a timer.
\<close>

theorem handleMotion_without_recording_witness:
  "getCamera [Some garage, Some porch] ''Porch'' = Some porch \<and> \<not> recordOnMovement porch
   \<and> \<not> (isAtHome home \<and> \<not> isExcluded home ''Porch'')
   \<and> handleMotion [Some garage, Some porch] home (Str ''doorbell'') ''Porch'' True ''mqtt''
        malformed armed =
        (\<lparr>motionTimers = [''Garage'' \<mapsto> Timer ''Garage'' 10000], cleared = [],
          emitted = [(''Garage'', Str ''motion'', True, ''http''),
                     (''Porch'', Str ''doorbell'', True, ''mqtt'')],
          handled = [(Str ''motion'', ''Garage'', True)]\<rparr>,
         \<lparr>error = False, message = ''Handled through extern controller''\<rparr>)"
proof -
  have h1: "getCamera [Some garage, Some porch] ''Porch'' = Some porch" by simp
  have h2: "\<not> recordOnMovement porch" by simp
  have h3: "\<not> (isAtHome home \<and> \<not> isExcluded home ''Porch'')" by (simp add: isExcluded_def)
  show ?thesis
    using h1 h2 h3
      handleMotion_without_recording [OF h1 h2 h3, of "Str ''doorbell''" True "''mqtt''" malformed armed]
    by simp
qed


section \<open>Resets without a timer\<close>

text \<open>
  Claim C9. For a camera that records on movement, has no timer and is not suppressed by
  the presence settings, the same trigger with \<^verbatim>\<open>state == false\<close> processed twice
  in a row leaves the timer map unchanged both times (no timer is created, none is
  cleared), both calls succeed, and both return the same result. Each call hands the
  reset to the event controller.
\<close>

theorem idle_reset_twice:
  assumes "getCamera cameras cameraName = Some c"
    and "recordOnMovement c"
    and "motionTimers st cameraName = None"
    and "\<not> (isAtHome settings1 \<and> \<not> isExcluded settings1 cameraName)"
    and "\<not> (isAtHome settings2 \<and> \<not> isExcluded settings2 cameraName)"
    and "handleMotion cameras settings1 triggerType cameraName False ev result st = (st1, r1)"
    and "handleMotion cameras settings2 triggerType cameraName False ev result st1 = (st2, r2)"
  shows "motionTimers st1 = motionTimers st \<and> motionTimers st2 = motionTimers st1
         \<and> cleared st1 = cleared st \<and> cleared st2 = cleared st1
         \<and> \<not> error r1 \<and> \<not> error r2 \<and> r1 = r2
         \<and> r1 = \<lparr>error = False, message = ''Handled through intern controller''\<rparr>
         \<and> handled st1 = handled st @ [(triggerType, cameraName, False)]
         \<and> handled st2 = handled st1 @ [(triggerType, cameraName, False)]"
proof -
  from assms(6) handleMotion_idle [OF assms(1) assms(4) assms(2) assms(3)]
  have one: "st1 = st\<lparr>emitted := emitted st @ [(cameraName, triggerType, False, ev)],
                       handled := handled st @ [(triggerType, cameraName, False)]\<rparr>"
    and r1: "r1 = \<lparr>error = False, message = ''Handled through intern controller''\<rparr>"
    by simp_all
  from one assms(3) have idle1: "motionTimers st1 cameraName = None"
    by simp
  from assms(7) handleMotion_idle [OF assms(1) assms(5) assms(2) idle1]
  have two: "st2 = st1\<lparr>emitted := emitted st1 @ [(cameraName, triggerType, False, ev)],
                        handled := handled st1 @ [(triggerType, cameraName, False)]\<rparr>"
    and r2: "r2 = \<lparr>error = False, message = ''Handled through intern controller''\<rparr>"
    by simp_all
  from one two r1 r2 show ?thesis
    by simp
qed

text \<open>The claim at the example camera, from the start.\<close>

theorem idle_reset_twice_witness:
  "getCamera [Some garage] ''Garage'' = Some garage \<and> recordOnMovement garage
   \<and> motionTimers initial ''Garage'' = None
   \<and> \<not> (isAtHome away \<and> \<not> isExcluded away ''Garage'')
   \<and> handleMotion [Some garage] away (Str ''motion'') ''Garage'' False ''http'' malformed initial =
        (idle_after_reset, \<lparr>error = False, message = ''Handled through intern controller''\<rparr>)
   \<and> handleMotion [Some garage] away (Str ''motion'') ''Garage'' False ''http'' malformed
        idle_after_reset =
        (idle_after_resets, \<lparr>error = False, message = ''Handled through intern controller''\<rparr>)
   \<and> motionTimers idle_after_reset = motionTimers initial
   \<and> motionTimers idle_after_resets = motionTimers idle_after_reset"
proof -
  have h1: "getCamera [Some garage] ''Garage'' = Some garage" by simp
  have h2: "recordOnMovement garage" by simp
  have h3: "motionTimers initial ''Garage'' = None" by (simp add: initial_def)
  have h4: "\<not> (isAtHome away \<and> \<not> isExcluded away ''Garage'')" by (rule away_passes)
  have h6: "handleMotion [Some garage] away (Str ''motion'') ''Garage'' False ''http'' malformed
              initial =
              (idle_after_reset, \<lparr>error = False, message = ''Handled through intern controller''\<rparr>)"
    by (simp add: handleMotion_def isAtHome_def isExcluded_def initial_def)
  have h7: "handleMotion [Some garage] away (Str ''motion'') ''Garage'' False ''http'' malformed
              idle_after_reset =
              (idle_after_resets, \<lparr>error = False, message = ''Handled through intern controller''\<rparr>)"
    by (simp add: handleMotion_def isAtHome_def isExcluded_def)
  show ?thesis
    using h1 h2 h3 h4 h6 h7 idle_reset_twice [OF h1 h2 h3 h4 h4 h6 h7]
    by simp
qed

section \<open>The trigger after one that met a timer\<close>

text \<open>
  Claim C10. For a camera that records on movement and is not suppressed by the presence
  settings, after any trigger processed while the camera has a timer (whatever its
  \<^verbatim>\<open>state\<close>) the camera has no entry in the timer map; a trigger with
  \<^verbatim>\<open>state == true\<close> that follows immediately is handed to the event controller. So
  when the first of the two was a suppressed positive trigger, the second is not
  suppressed.
\<close>

theorem armed_then_positive_forwarded:
  assumes "getCamera cameras cameraName = Some c"
    and "recordOnMovement c"
    and "motionTimers st cameraName = Some t"
    and "\<not> (isAtHome settings1 \<and> \<not> isExcluded settings1 cameraName)"
    and "\<not> (isAtHome settings2 \<and> \<not> isExcluded settings2 cameraName)"
    and "handleMotion cameras settings1 triggerType1 cameraName state ev1 result1 st = (st1, r1)"
    and "handleMotion cameras settings2 triggerType2 cameraName True ev2 result2 st1 = (st2, r2)"
  shows "motionTimers st1 cameraName = None
         \<and> handled st2 = handled st1 @ [(triggerType2, cameraName, True)]
         \<and> r2 = \<lparr>error = False, message = ''Handled through intern controller''\<rparr>
         \<and> (state \<longrightarrow> handled st1 = handled st
                      \<and> r1 = \<lparr>error = False, message = ''Skip motion event, timeout active!''\<rparr>)"
proof -
  from assms(6) handleMotion_armed [OF assms(1) assms(4) assms(2) assms(3)]
  have idle1: "motionTimers st1 cameraName = None"
    and first: "state \<longrightarrow> handled st1 = handled st
                  \<and> r1 = \<lparr>error = False, message = ''Skip motion event, timeout active!''\<rparr>"
    by (auto split: if_splits)
  from assms(7) handleMotion_idle [OF assms(1) assms(5) assms(2) idle1]
  have "handled st2 = handled st1 @ [(triggerType2, cameraName, True)]"
    and "r2 = \<lparr>error = False, message = ''Handled through intern controller''\<rparr>"
    by (auto split: if_splits)
  with idle1 first show ?thesis
    by simp
qed

text \<open>The claim at the example camera: the second and third positive trigger in a row.\<close>

theorem armed_then_positive_forwarded_witness:
  "getCamera [Some garage] ''Garage'' = Some garage \<and> recordOnMovement garage
   \<and> motionTimers armed ''Garage'' = Some (Timer ''Garage'' 10000)
   \<and> \<not> (isAtHome away \<and> \<not> isExcluded away ''Garage'')
   \<and> handleMotion [Some garage] away (Str ''motion'') ''Garage'' True ''http'' malformed armed =
        (skipped, \<lparr>error = False, message = ''Skip motion event, timeout active!''\<rparr>)
   \<and> handleMotion [Some garage] away (Str ''motion'') ''Garage'' True ''http'' malformed skipped =
        (rearmed, \<lparr>error = False, message = ''Handled through intern controller''\<rparr>)
   \<and> motionTimers skipped ''Garage'' = None
   \<and> handled rearmed = handled skipped @ [(Str ''motion'', ''Garage'', True)]"
proof -
  have h1: "getCamera [Some garage] ''Garage'' = Some garage" by simp
  have h2: "recordOnMovement garage" by simp
  have h3: "motionTimers armed ''Garage'' = Some (Timer ''Garage'' 10000)" by simp
  have h4: "\<not> (isAtHome away \<and> \<not> isExcluded away ''Garage'')" by (rule away_passes)
  have h6: "handleMotion [Some garage] away (Str ''motion'') ''Garage'' True ''http'' malformed
              armed =
              (skipped, \<lparr>error = False, message = ''Skip motion event, timeout active!''\<rparr>)"
    by (simp add: handleMotion_def isAtHome_def isExcluded_def)
  have h7: "handleMotion [Some garage] away (Str ''motion'') ''Garage'' True ''http'' malformed
              skipped =
              (rearmed, \<lparr>error = False, message = ''Handled through intern controller''\<rparr>)"
    by (simp add: handleMotion_def isAtHome_def isExcluded_def timeoutConfigOf_def)
  show ?thesis
    using h1 h2 h3 h4 h6 h7 armed_then_positive_forwarded [OF h1 h2 h3 h4 h4 h6 h7]
    by simp
qed

section \<open>Cameras that are never armed\<close>

text \<open>
  A call of \<^verbatim>\<open>#handleMotion\<close> for any camera name, and the expiry of any timer,
  leave a camera without an entry when its \<^verbatim>\<open>timeoutConfig\<close> is not positive; so
  does every sequence of them.
\<close>

lemma handleMotion_keeps_idle:
  assumes "getCamera cameras cameraName = Some c"
    and "\<not> 0 < timeoutConfigOf c"
    and "motionTimers st cameraName = None"
  shows "motionTimers (fst (handleMotion cameras settings triggerType other state ev result st))
           cameraName = None"
proof (cases "getCamera cameras other")
  case None
  with assms(3) show ?thesis
    by (simp add: handleMotion_def)
next
  case (Some c')
  then have n: "name c' = other"
    by (simp add: getCamera_Some_name)
  show ?thesis
  proof (cases "other = cameraName")
    case True
    with Some assms(1) have "c' = c" by simp
    with Some n True assms(2) assms(3) show ?thesis
      by (simp add: handleMotion_def Let_def split: option.splits)
  next
    case False
    with Some n assms(3) show ?thesis
      by (simp add: handleMotion_def Let_def split: option.splits)
  qed
qed

lemma step_keeps_idle:
  assumes "getCamera cameras cameraName = Some c"
    and "\<not> 0 < timeoutConfigOf c"
    and "motionTimers st cameraName = None"
  shows "motionTimers (step cameras e st) cameraName = None"
proof (cases e)
  case (Motion settings triggerType other state ev result)
  with handleMotion_keeps_idle [OF assms] show ?thesis
    by simp
next
  case (Expired t)
  with assms(3) show ?thesis
    by (simp add: timerExpired_def)
qed

lemma run_keeps_idle:
  assumes "getCamera cameras cameraName = Some c"
    and "\<not> 0 < timeoutConfigOf c"
  shows "motionTimers st cameraName = None \<Longrightarrow> motionTimers (run cameras es st) cameraName = None"
proof (induction es arbitrary: st)
  case Nil
  then show ?case by simp
next
  case (Cons e es)
  from Cons.prems have "motionTimers (step cameras e st) cameraName = None"
    by (rule step_keeps_idle [OF assms])
  then show ?case
    by (simp add: Cons.IH)
qed

text \<open>
  Claim C2 says that a camera with \<^verbatim>\<open>motionTimeout <= 0\<close> is never armed and never
  suppressed. The source replaces a negative \<^verbatim>\<open>motionTimeout\<close> by one second
  (\<^verbatim>\<open>camera.motionTimeout >= 0 ? camera.motionTimeout : 1\<close>): the camera with
  \<^verbatim>\<open>motionTimeout = -1\<close> gets a timer of 1000 milliseconds at its first positive
  trigger, and its second one is answered with \<^verbatim>\<open>Skip motion event, timeout active!\<close>
  and not handed to the event controller.
\<close>

theorem negative_timeout_arms:
  "getCamera [Some cellar] ''Cellar'' = Some cellar \<and> recordOnMovement cellar
   \<and> motionTimeout cellar \<le> 0
   \<and> motionTimers initial ''Cellar'' = None
   \<and> \<not> (isAtHome away \<and> \<not> isExcluded away ''Cellar'')
   \<and> run [Some cellar] [Motion away (Str ''motion'') ''Cellar'' True ''http'' malformed] initial
       = cellar_once
   \<and> motionTimers cellar_once ''Cellar'' = Some (Timer ''Cellar'' 1000)
   \<and> snd (handleMotion [Some cellar] away (Str ''motion'') ''Cellar'' True ''http'' malformed
             cellar_once) = \<lparr>error = False, message = ''Skip motion event, timeout active!''\<rparr>
   \<and> handled (fst (handleMotion [Some cellar] away (Str ''motion'') ''Cellar'' True ''http''
                      malformed cellar_once)) = handled cellar_once"
  by (simp add: handleMotion_def isAtHome_def isExcluded_def timeoutConfigOf_def initial_def)


text \<open>
  Claim C2 as amended. For a camera with \<^verbatim>\<open>motionTimeout = 0\<close> and
  \<^verbatim>\<open>recordOnMovement = true\<close> that has no entry in the timer map, after every
  sequence of triggers (for any cameras) and timer expiries the camera still has no
  entry, and every trigger with \<^verbatim>\<open>state == true\<close> for it that the presence settings
  do not suppress is handed to the event controller and answered with
  \<^verbatim>\<open>Handled through intern controller\<close>.
\<close>

theorem zero_timeout_never_armed:
  assumes "getCamera cameras cameraName = Some c"
    and "recordOnMovement c"
    and "motionTimeout c = 0"
    and "motionTimers st cameraName = None"
  shows "motionTimers (run cameras es st) cameraName = None
         \<and> (\<not> (isAtHome settings \<and> \<not> isExcluded settings cameraName) \<longrightarrow>
              handleMotion cameras settings triggerType cameraName True ev result (run cameras es st) =
                ((run cameras es st)
                   \<lparr>emitted := emitted (run cameras es st) @ [(cameraName, triggerType, True, ev)],
                    handled := handled (run cameras es st) @ [(triggerType, cameraName, True)]\<rparr>,
                 \<lparr>error = False, message = ''Handled through intern controller''\<rparr>))"
proof -
  from assms(3) have zero: "\<not> 0 < timeoutConfigOf c"
    by (simp add: timeoutConfigOf_def)
  have idle: "motionTimers (run cameras es st) cameraName = None"
    using assms(4) by (rule run_keeps_idle [OF assms(1) zero])
  have "handleMotion cameras settings triggerType cameraName True ev result (run cameras es st) =
          ((run cameras es st)
             \<lparr>emitted := emitted (run cameras es st) @ [(cameraName, triggerType, True, ev)],
              handled := handled (run cameras es st) @ [(triggerType, cameraName, True)]\<rparr>,
           \<lparr>error = False, message = ''Handled through intern controller''\<rparr>)"
    if "\<not> (isAtHome settings \<and> \<not> isExcluded settings cameraName)"
    using handleMotion_idle [OF assms(1) that assms(2) idle] zero by simp
  with idle show ?thesis
    by blast
qed

text \<open>The amended claim at the camera with timeout zero: two positive triggers in a row.\<close>

theorem zero_timeout_never_armed_witness:
  "getCamera [Some hall] ''Hall'' = Some hall \<and> recordOnMovement hall \<and> motionTimeout hall = 0
   \<and> motionTimers initial ''Hall'' = None
   \<and> \<not> (isAtHome away \<and> \<not> isExcluded away ''Hall'')
   \<and> run [Some hall] [Motion away (Str ''motion'') ''Hall'' True ''http'' malformed] initial = hall_once
   \<and> motionTimers hall_once ''Hall'' = None
   \<and> handleMotion [Some hall] away (Str ''motion'') ''Hall'' True ''http'' malformed hall_once =
        (hall_twice, \<lparr>error = False, message = ''Handled through intern controller''\<rparr>)"
proof -
  have h1: "getCamera [Some hall] ''Hall'' = Some hall" by simp
  have h2: "recordOnMovement hall" by simp
  have h3: "motionTimeout hall = 0" by simp
  have h4: "motionTimers initial ''Hall'' = None" by (simp add: initial_def)
  have h5: "\<not> (isAtHome away \<and> \<not> isExcluded away ''Hall'')" by (rule away_passes)
  have r: "run [Some hall] [Motion away (Str ''motion'') ''Hall'' True ''http'' malformed] initial
             = hall_once"
    by (simp add: handleMotion_def isAtHome_def isExcluded_def timeoutConfigOf_def initial_def)
  show ?thesis
    using h1 h2 h3 h4 h5 r
      zero_timeout_never_armed [OF h1 h2 h3 h4,
        of "[Motion away (Str ''motion'') ''Hall'' True ''http'' malformed]" away
           "Str ''motion''" "''http''" malformed]
    by simp
qed

section \<open>Strings and paths\<close>











section \<open>Requests over HTTP\<close>





section \<open>Messages over MQTT\<close>

text \<open>
  Claim C7. For a message on a topic the topic map holds: the trigger type is
  \<^verbatim>\<open>motion\<close> when the entry has \<^verbatim>\<open>motion\<close> set and \<^verbatim>\<open>doorbell\<close> otherwise; a
  doorbell trigger has state true for every payload; with \<^verbatim>\<open>reset\<close> set the state is
  false when the payload is \<^verbatim>\<open>motionResetMessage\<close> and undefined otherwise; with
  \<^verbatim>\<open>reset\<close> unset the state is true when the payload is \<^verbatim>\<open>motionMessage\<close>, else
  false when it is \<^verbatim>\<open>motionResetMessage\<close>, else undefined. An undefined state and a
  topic the map does not hold are both rejected with an error result, and the state of
  the controller is untouched; a defined state is what \<^verbatim>\<open>#handleMotion\<close> is called
  with.
\<close>

theorem mqtt_message_normalized:
  "(topics topic = Some m \<longrightarrow>
      (\<not> motion m \<longrightarrow>
         mqttNormalize topics topic msg = Trigger (Str ''doorbell'') (camera m) True)
      \<and> (motion m \<and> reset m \<longrightarrow>
           mqttNormalize topics topic msg =
             (if msg = motionResetMessage m then Trigger (Str ''motion'') (camera m) False
              else Rejected \<lparr>error = True,
                     message = ''The incoming MQTT message ('' @ msg @ '') for the topic (''
                       @ topic @ '') was not the same as set in config.json. Skip...''\<rparr>))
      \<and> (motion m \<and> \<not> reset m \<longrightarrow>
           mqttNormalize topics topic msg =
             (if msg = motionMessage m then Trigger (Str ''motion'') (camera m) True
              else if msg = motionResetMessage m then Trigger (Str ''motion'') (camera m) False
              else Rejected \<lparr>error = True,
                     message = ''The incoming MQTT message ('' @ msg @ '') for the topic (''
                       @ topic @ '') was not the same as set in config.json. Skip...''\<rparr>)))
   \<and> (topics topic = None \<longrightarrow>
        mqttNormalize topics topic msg =
          Rejected \<lparr>error = True,
            message = ''Can not assign the MQTT topic ('' @ topic @ '') to a camera!''\<rparr>)
   \<and> (mqttNormalize topics topic msg = Rejected r \<longrightarrow>
        error r \<and> mqttMessage cameras settings topics topic msg st = (st, r))
   \<and> (mqttNormalize topics topic msg = Trigger triggerType cameraName state \<longrightarrow>
        mqttMessage cameras settings topics topic msg st =
          handleMotion cameras settings triggerType cameraName state ''mqtt''
            \<lparr>error = True,
             message = ''Malformed MQTT message '' @ msg @ '' ('' @ topic @ '')''\<rparr> st)"
proof -
  have bell: "mqttNormalize topics topic msg = Trigger (Str ''doorbell'') (camera m) True"
    if "topics topic = Some m" "\<not> motion m"
    using that by (simp add: mqttNormalize_def mqttState_def)
  have resetting: "mqttNormalize topics topic msg =
             (if msg = motionResetMessage m then Trigger (Str ''motion'') (camera m) False
              else Rejected \<lparr>error = True,
                     message = ''The incoming MQTT message ('' @ msg @ '') for the topic (''
                       @ topic @ '') was not the same as set in config.json. Skip...''\<rparr>)"
    if "topics topic = Some m" "motion m" "reset m"
    using that by (simp add: mqttNormalize_def mqttState_def)
  have plain: "mqttNormalize topics topic msg =
             (if msg = motionMessage m then Trigger (Str ''motion'') (camera m) True
              else if msg = motionResetMessage m then Trigger (Str ''motion'') (camera m) False
              else Rejected \<lparr>error = True,
                     message = ''The incoming MQTT message ('' @ msg @ '') for the topic (''
                       @ topic @ '') was not the same as set in config.json. Skip...''\<rparr>)"
    if "topics topic = Some m" "motion m" "\<not> reset m"
    using that by (simp add: mqttNormalize_def mqttState_def)
  have unmapped: "mqttNormalize topics topic msg =
          Rejected \<lparr>error = True,
            message = ''Can not assign the MQTT topic ('' @ topic @ '') to a camera!''\<rparr>"
    if "topics topic = None"
    using that by (simp add: mqttNormalize_def)
  have failed: "error r" if "mqttNormalize topics topic msg = Rejected r"
    using that by (auto simp add: mqttNormalize_def Let_def split: option.splits)
  have dropped: "mqttMessage cameras settings topics topic msg st = (st, r)"
    if "mqttNormalize topics topic msg = Rejected r"
    using that by (simp add: mqttMessage_def)
  have handed: "mqttMessage cameras settings topics topic msg st =
          handleMotion cameras settings triggerType cameraName state ''mqtt''
            \<lparr>error = True,
             message = ''Malformed MQTT message '' @ msg @ '' ('' @ topic @ '')''\<rparr> st"
    if "mqttNormalize topics topic msg = Trigger triggerType cameraName state"
    using that by (simp add: mqttMessage_def)
  from bell resetting plain unmapped failed dropped handed show ?thesis
    by blast
qed

text \<open>The claim at each kind of topic and payload of the example topic map.\<close>

theorem mqtt_message_normalized_witness:
  "mqttNormalize topics_example ''bell/Garage'' ''ring'' = Trigger (Str ''doorbell'') ''Garage'' True
   \<and> mqttNormalize topics_example ''cam/Garage/reset'' ''OFF'' = Trigger (Str ''motion'') ''Garage'' False
   \<and> mqttNormalize topics_example ''cam/Garage/reset'' ''ON'' =
       Rejected \<lparr>error = True,
         message = ''The incoming MQTT message (ON) for the topic (cam/Garage/reset) was not the same as set in config.json. Skip...''\<rparr>
   \<and> mqttNormalize topics_example ''cam/Garage'' ''ON'' = Trigger (Str ''motion'') ''Garage'' True
   \<and> mqttNormalize topics_example ''cam/Garage'' ''OFF'' = Trigger (Str ''motion'') ''Garage'' False
   \<and> mqttNormalize topics_example ''cam/Garage'' ''on'' =
       Rejected \<lparr>error = True,
         message = ''The incoming MQTT message (on) for the topic (cam/Garage) was not the same as set in config.json. Skip...''\<rparr>
   \<and> mqttNormalize topics_example ''cam/Porch'' ''ON'' =
       Rejected \<lparr>error = True,
         message = ''Can not assign the MQTT topic (cam/Porch) to a camera!''\<rparr>
   \<and> mqttMessage [Some garage] away topics_example ''cam/Porch'' ''ON'' armed =
       (armed, \<lparr>error = True,
          message = ''Can not assign the MQTT topic (cam/Porch) to a camera!''\<rparr>)
   \<and> mqttMessage [Some garage] away topics_example ''cam/Garage'' ''ON'' initial =
       handleMotion [Some garage] away (Str ''motion'') ''Garage'' True ''mqtt''
         \<lparr>error = True, message = ''Malformed MQTT message ON (cam/Garage)''\<rparr> initial"
proof -
  let ?plain = "\<lparr>camera = ''Garage'', motion = True, reset = False,
                  motionMessage = ''ON'', motionResetMessage = ''OFF''\<rparr>"
  let ?resetting = "\<lparr>camera = ''Garage'', motion = True, reset = True,
                      motionMessage = ''ON'', motionResetMessage = ''OFF''\<rparr>"
  let ?bell = "\<lparr>camera = ''Garage'', motion = False, reset = False,
                 motionMessage = ''ON'', motionResetMessage = ''OFF''\<rparr>"
  let ?unmapped = "\<lparr>error = True,
                     message = ''Can not assign the MQTT topic (cam/Porch) to a camera!''\<rparr>"
  have t1: "topics_example ''bell/Garage'' = Some ?bell" by simp
  have t2: "topics_example ''cam/Garage/reset'' = Some ?resetting" by simp
  have t3: "topics_example ''cam/Garage'' = Some ?plain" by simp
  have t4: "topics_example ''cam/Porch'' = None" by simp
  note w = mqtt_message_normalized [where topics = topics_example and cameras = "[Some garage]"
      and settings = away]
  show ?thesis
    using t1 t2 t3 t4
      w [where topic = "''bell/Garage''" and msg = "''ring''" and m = ?bell and r = ?unmapped
        and st = armed and triggerType = "Str ''motion''" and cameraName = "''Garage''"
        and state = True]
      w [where topic = "''cam/Garage/reset''" and msg = "''OFF''" and m = ?resetting
        and r = ?unmapped and st = armed and triggerType = "Str ''motion''"
        and cameraName = "''Garage''" and state = True]
      w [where topic = "''cam/Garage/reset''" and msg = "''ON''" and m = ?resetting
        and r = ?unmapped and st = armed and triggerType = "Str ''motion''"
        and cameraName = "''Garage''" and state = True]
      w [where topic = "''cam/Garage''" and msg = "''ON''" and m = ?plain and r = ?unmapped
        and st = initial and triggerType = "Str ''motion''" and cameraName = "''Garage''"
        and state = True]
      w [where topic = "''cam/Garage''" and msg = "''OFF''" and m = ?plain and r = ?unmapped
        and st = armed and triggerType = "Str ''motion''" and cameraName = "''Garage''"
        and state = True]
      w [where topic = "''cam/Garage''" and msg = "''on''" and m = ?plain and r = ?unmapped
        and st = armed and triggerType = "Str ''motion''" and cameraName = "''Garage''"
        and state = True]
      w [where topic = "''cam/Porch''" and msg = "''ON''" and m = ?plain and r = ?unmapped
        and st = armed and triggerType = "Str ''motion''" and cameraName = "''Garage''"
        and state = True]
    by simp
qed

end
